theory Spec2Isabelle
  imports Complex_Main "HOL-Library.Word" "HOL-Library.Signed_Division" "HOL-Library.Multiset"
begin

section \<open>Machine types of mpi\_comm\_bench.cpp\<close>

text \<open>
  The program is a single translation unit, \<^verbatim>\<open>mpi_comm_bench.cpp\<close>. Its values are
  \<^item> \<^verbatim>\<open>int\<close> (rank, group size, neighbours, transfer count): 32-bit two's complement.
    They are modelled as \<^typ>\<open>int\<close> with the wrap-around of each arithmetic step written
    out (\<open>wrap_int\<close>): C++ leaves signed overflow undefined, the wrap-around is what the
    compiled program computes, and \<open>fits_int\<close> says that a step does not overflow.
    \<^verbatim>\<open>%\<close> truncates towards zero, which is \<open>smod\<close>;
  \<^item> \<^verbatim>\<open>size_t\<close> (the message size): a 64-bit word, \<open>*\<close> wraps;
  \<^item> \<^verbatim>\<open>double\<close> (durations, bandwidths, the interval): modelled as \<^typ>\<open>real\<close>, that is,
    without rounding, infinities or NaN, where the program computes with them. The
    conversion of a number to text belongs to the C++ library and is a parameter, and the
    output statement of the statistics line is modelled for numbers of any type;
  \<^item> \<^verbatim>\<open>unsigned char\<close> buffers: lists of 8-bit words, \<open>None\<close> for a null pointer.
\<close>

type_synonym c_int = int
type_synonym size_t = "64 word"
type_synonym double = real
type_synonym byte = "8 word"

definition INT_MIN :: int where
  "INT_MIN = - (2 ^ 31)"

definition INT_MAX :: int where
  "INT_MAX = 2 ^ 31 - 1"

definition fits_int :: "int \<Rightarrow> bool" where
  "fits_int x = (INT_MIN \<le> x \<and> x \<le> INT_MAX)"

definition wrap_int :: "int \<Rightarrow> c_int" where
  "wrap_int x = signed_take_bit 31 x"

section \<open>Command line\<close>

text \<open>
  \<^verbatim>\<open>has_flag\<close>: the loop runs over \<^verbatim>\<open>argv[1 .. argc-1]\<close> and returns at the first
  argument equal to the flag.
\<close>

fun has_flag_loop :: "string list \<Rightarrow> string \<Rightarrow> bool" where
  "has_flag_loop [] flag = False"
| "has_flag_loop (arg # rest) flag = (if arg = flag then True else has_flag_loop rest flag)"

definition has_flag :: "string list \<Rightarrow> string \<Rightarrow> bool" where
  "has_flag argv flag = has_flag_loop (drop 1 argv) flag"

text \<open>
  \<^verbatim>\<open>get_flag_value\<close>: \<^verbatim>\<open>arg.rfind(prefix, 0) == 0\<close> holds when \<^verbatim>\<open>arg\<close> starts with the
  prefix; \<^verbatim>\<open>i + 1 < argc\<close> holds when an argument follows.
\<close>

definition starts_with :: "string \<Rightarrow> string \<Rightarrow> bool" where
  "starts_with arg prefix = (take (length prefix) arg = prefix)"

fun get_flag_value_loop :: "string list \<Rightarrow> string \<Rightarrow> string option" where
  "get_flag_value_loop [] flag = None"
| "get_flag_value_loop (arg # rest) flag =
     (if starts_with arg (flag @ ''='') then Some (drop (length (flag @ ''='')) arg)
      else if arg = flag \<and> rest \<noteq> [] then Some (hd rest)
      else get_flag_value_loop rest flag)"

definition get_flag_value :: "string list \<Rightarrow> string \<Rightarrow> string option" where
  "get_flag_value argv flag = get_flag_value_loop (drop 1 argv) flag"

section \<open>Configuration read by main\<close>

record config =
  msg_size :: size_t
  interval_sec :: double
  use_gpu :: bool

text \<open>
  \<^verbatim>\<open>static_cast< size_t >( d )\<close> truncates towards zero. C++ defines the conversion only
  when the truncated value is a \<^verbatim>\<open>size_t\<close>; for any other \<open>d\<close> the compiled program goes
  on with the value that its conversion code produces, which differs between compilers and
  processors and is the parameter \<open>out_of_range\<close>.
\<close>

definition double_to_size_t :: "(double \<Rightarrow> size_t) \<Rightarrow> double \<Rightarrow> size_t" where
  "double_to_size_t out_of_range d =
     (if - 1 < d \<and> d < 2 ^ 64 then word_of_int (if d < 0 then 0 else \<lfloor>d\<rfloor>)
      else out_of_range d)"

text \<open>
  Lines 70 to 79 of \<^verbatim>\<open>main\<close>. The library function \<^verbatim>\<open>std::stod\<close> is a parameter:
  \<open>None\<close> when it throws, which nothing catches. The only flags that \<^verbatim>\<open>main\<close> looks up are
  \<^verbatim>\<open>--msg-size\<close> and \<^verbatim>\<open>--gpu\<close>; \<^verbatim>\<open>interval_sec\<close> keeps its initial value.
\<close>

definition read_config ::
  "(string \<Rightarrow> double option) \<Rightarrow> (double \<Rightarrow> size_t) \<Rightarrow> string list \<Rightarrow> config option" where
  "read_config stod out_of_range argv =
     (case get_flag_value argv ''--msg-size'' of
        None \<Rightarrow>
          Some \<lparr>msg_size = 1024 * 1024, interval_sec = 1.0, use_gpu = has_flag argv ''--gpu''\<rparr>
      | Some v \<Rightarrow>
          (case stod v of
             None \<Rightarrow> None
           | Some d \<Rightarrow>
               Some \<lparr>msg_size = double_to_size_t out_of_range d, interval_sec = 1.0,
                     use_gpu = has_flag argv ''--gpu''\<rparr>))"

section \<open>Ring topology\<close>

text \<open>Lines 90 and 91: \<^verbatim>\<open>( rank + 1 ) % num_processes\<close> and
  \<^verbatim>\<open>( rank - 1 + num_processes ) % num_processes\<close>, evaluated left to right in \<^verbatim>\<open>int\<close>.\<close>

definition ring_next :: "c_int \<Rightarrow> c_int \<Rightarrow> c_int" where
  "ring_next rank num_processes = wrap_int (rank + 1) smod num_processes"

definition ring_prev :: "c_int \<Rightarrow> c_int \<Rightarrow> c_int" where
  "ring_prev rank num_processes =
     wrap_int (wrap_int (rank - 1) + num_processes) smod num_processes"

section \<open>Calls that leave the process: events\<close>

datatype mpi_op = MPI_MIN | MPI_MAX | MPI_SUM

text \<open>
  \<open>MPI_Sendrecv sendcount dest recvcount source\<close>; \<open>MPI_Reduce op x\<close> is this rank's
  contribution \<open>x\<close> to a reduction to rank 0; \<open>Stdout\<close> and \<open>Stderr\<close> carry the text of one
  output statement; \<open>Terminate\<close> is \<^verbatim>\<open>std::terminate\<close>, called for an exception that
  nothing catches, which ends the process through \<^verbatim>\<open>abort\<close> with a non-zero status (what
  its handler may write names the exception, nothing of the program).
\<close>

datatype event =
    Stdout string
  | Stderr string
  | MPI_Abort c_int
  | Sleep_for double
  | MPI_Barrier
  | MPI_Sendrecv c_int c_int c_int c_int
  | MPI_Reduce mpi_op double
  | Terminate

datatype cudaError_t = cudaSuccess | cudaFailure string

text \<open>
  What the surroundings of the program supply: whether the binary was compiled with
  \<^verbatim>\<open>USE_CUDA\<close>, \<^verbatim>\<open>std::stod\<close>, the value of a conversion to \<^verbatim>\<open>size_t\<close> that C++ leaves
  undefined, the conversion \<open>num_put fixed precision x\<close> that the output stream applies to
  a \<^verbatim>\<open>double\<close> (\<open>fixed\<close> under \<^verbatim>\<open>std::fixed\<close>, otherwise the default \<^verbatim>\<open>%g\<close> style), what
  \<^verbatim>\<open>malloc\<close> returns (the \<open>k\<close>-th call returns a null pointer, or a block whose bytes are
  whatever the heap holds), the results of the CUDA runtime calls in the order they are
  made, and the number of accelerators of the node.
\<close>

record env =
  USE_CUDA :: bool
  stod :: "string \<Rightarrow> double option"
  out_of_range :: "double \<Rightarrow> size_t"
  num_put :: "bool \<Rightarrow> nat \<Rightarrow> double \<Rightarrow> string"
  malloc_null :: "nat \<Rightarrow> bool"
  heap_junk :: "nat \<Rightarrow> nat \<Rightarrow> byte"
  cuda_result :: "nat \<Rightarrow> cudaError_t"
  device_count :: nat

definition malloc :: "env \<Rightarrow> nat \<Rightarrow> size_t \<Rightarrow> byte list option" where
  "malloc e k n = (if malloc_null e k then None else Some (map (heap_junk e k) [0..<unat n]))"

text \<open>\<^verbatim>\<open>checkCuda\<close>: nothing on success; otherwise the message on stderr and
  \<^verbatim>\<open>MPI_Abort( MPI_COMM_WORLD, 1 )\<close>, which ends the process.\<close>

definition checkCuda :: "cudaError_t \<Rightarrow> string \<Rightarrow> event list" where
  "checkCuda err msg =
     (case err of
        cudaSuccess \<Rightarrow> []
      | cudaFailure s \<Rightarrow>
          [Stderr (''CUDA error at '' @ msg @ '': '' @ s @ ''\<newline>''), MPI_Abort 1])"

fun checkCuda_seq :: "(cudaError_t \<times> string) list \<Rightarrow> event list" where
  "checkCuda_seq [] = []"
| "checkCuda_seq ((err, msg) # rest) =
     (case checkCuda err msg of [] \<Rightarrow> checkCuda_seq rest | ev # evs \<Rightarrow> ev # evs)"

section \<open>Formatted output\<close>

text \<open>
  The part of the state of \<^verbatim>\<open>std::cout\<close> that the program touches: the float field
  (\<^verbatim>\<open>std::fixed\<close> or the default), the precision and the field width. \<^verbatim>\<open>std::fixed\<close> and
  \<^verbatim>\<open>std::setprecision\<close> stay in force; the width is reset to 0 by every formatted insertion.
\<close>

record ostream =
  floatfield_fixed :: bool
  precision :: nat
  width :: nat

definition cout_initial :: ostream where
  "cout_initial = \<lparr>floatfield_fixed = False, precision = 6, width = 0\<rparr>"

type_synonym inserter = "ostream \<Rightarrow> string \<times> ostream"

fun show_nat :: "nat \<Rightarrow> string" where
  "show_nat n =
     (if n < 10 then [''0123456789'' ! n] else show_nat (n div 10) @ [''0123456789'' ! (n mod 10)])"

declare show_nat.simps [simp del]

definition pad_left :: "nat \<Rightarrow> string \<Rightarrow> string" where
  "pad_left w s = replicate (w - length s) (CHR '' '') @ s"

definition zero_pad :: "nat \<Rightarrow> string \<Rightarrow> string" where
  "zero_pad w s = replicate (w - length s) (CHR ''0'') @ s"

text \<open>
  The conversion of a finite value under \<^verbatim>\<open>std::fixed\<close> as the C library's \<^verbatim>\<open>%.*f\<close> does
  it on the exact value: rounded to the nearest multiple of \<open>10^-p\<close>, a tie to the even
  one. The program itself reaches the library's conversion through \<open>num_put\<close>; this
  function is the conversion of the concrete machines further down.
\<close>

definition round_half_even :: "real \<Rightarrow> int" where
  "round_half_even y =
     (let f = \<lfloor>y\<rfloor>; r = y - of_int f
      in if r < 1 / 2 then f else if 1 / 2 < r then f + 1 else if even f then f else f + 1)"

definition fixed_repr :: "nat \<Rightarrow> double \<Rightarrow> string" where
  "fixed_repr p x =
     (let n = nat (round_half_even (\<bar>x\<bar> * 10 ^ p))
      in (if x < 0 then ''-'' else []) @ show_nat (n div 10 ^ p)
         @ (if p = 0 then [] else ''.'' @ zero_pad p (show_nat (n mod 10 ^ p))))"

definition put_string :: "string \<Rightarrow> inserter" where
  "put_string s os = (pad_left (width os) s, os\<lparr>width := 0\<rparr>)"

definition put_size_t :: "size_t \<Rightarrow> inserter" where
  "put_size_t n os = (pad_left (width os) (show_nat (unat n)), os\<lparr>width := 0\<rparr>)"

text \<open>Inserting a floating-point number: the library's conversion for the float field and
  precision of the stream, padded to the pending width. The type of the numbers is left
  open, so that what is proved of an output statement holds for every value of a
  \<^verbatim>\<open>double\<close>, infinities and NaN included.\<close>

definition put_double :: "(bool \<Rightarrow> nat \<Rightarrow> 'd \<Rightarrow> string) \<Rightarrow> 'd \<Rightarrow> inserter" where
  "put_double conv x os =
     (pad_left (width os) (conv (floatfield_fixed os) (precision os) x), os\<lparr>width := 0\<rparr>)"

definition put_fixed :: inserter where
  "put_fixed os = ([], os\<lparr>floatfield_fixed := True\<rparr>)"

definition setprecision :: "nat \<Rightarrow> inserter" where
  "setprecision n os = ([], os\<lparr>precision := n\<rparr>)"

definition setw :: "nat \<Rightarrow> inserter" where
  "setw n os = ([], os\<lparr>width := n\<rparr>)"

definition endl :: inserter where
  "endl os = (''\<newline>'', os)"

text \<open>One output statement \<^verbatim>\<open>std::cout << a << b << ...\<close>: the insertions run left to
  right on the stream.\<close>

fun statement :: "inserter list \<Rightarrow> inserter" where
  "statement [] os = ([], os)"
| "statement (f # fs) os =
     (case f os of (a, os1) \<Rightarrow> (case statement fs os1 of (b, os2) \<Rightarrow> (a @ b, os2)))"

section \<open>Buffers and startup\<close>

record proc =
  rank :: c_int
  num_processes :: c_int
  conf :: config
  next_rank :: c_int
  prev_rank :: c_int
  send_buf :: "byte list option"
  recv_buf :: "byte list option"
  cout :: ostream

datatype startup_result =
    Bad_argument
  | Aborted "event list"
  | Ready proc "event list"

text \<open>Lines 81 to 88: the banner, four output statements, on rank 0 only.\<close>

definition banner :: "env \<Rightarrow> config \<Rightarrow> ostream \<Rightarrow> event list \<times> ostream" where
  "banner e cfg os0 =
     (case statement [put_string ''Ring comm benchmark.'', endl] os0 of (l1, os1) \<Rightarrow>
      case statement [put_string ''Message size: '', put_size_t (msg_size cfg),
                      put_string '' bytes (~'',
                      put_double (num_put e) (real (unat (msg_size cfg)) / 1000000000),
                      put_string '' GB).'', endl] os1 of (l2, os2) \<Rightarrow>
      case statement [put_string ''Interval:     '',
                      put_double (num_put e) (interval_sec cfg),
                      put_string '' seconds.'', endl] os2 of (l3, os3) \<Rightarrow>
      case statement [put_string ''GPU mode:     '',
                      put_string (if use_gpu cfg then ''on'' else ''off''), endl] os3
        of (l4, os4) \<Rightarrow>
      ([Stdout l1, Stdout l2, Stdout l3, Stdout l4], os4))"

text \<open>
  Lines 63 to 114 of \<^verbatim>\<open>main\<close>, for the process of rank \<open>r\<close> in a group of \<open>n\<close>. An
  exception of \<^verbatim>\<open>std::stod\<close> is not caught (\<open>Bad_argument\<close>), and the process ends
  before it has written anything or looked at \<^verbatim>\<open>--gpu\<close>. With \<^verbatim>\<open>--gpu\<close>, a binary
  compiled with \<^verbatim>\<open>USE_CUDA\<close> makes four CUDA calls (two \<^verbatim>\<open>cudaMalloc\<close>, two \<^verbatim>\<open>cudaMemset\<close>
  to 0), each checked by \<^verbatim>\<open>checkCuda\<close>; a binary compiled without it writes a diagnostic on
  rank 0 and calls \<^verbatim>\<open>MPI_Abort\<close> on every rank. Without \<^verbatim>\<open>--gpu\<close> the two buffers come
  from \<^verbatim>\<open>malloc\<close> and are used as they are.
\<close>

definition main_startup :: "env \<Rightarrow> string list \<Rightarrow> c_int \<Rightarrow> c_int \<Rightarrow> startup_result" where
  "main_startup e argv r n =
     (case read_config (stod e) (out_of_range e) argv of
        None \<Rightarrow> Bad_argument
      | Some cfg \<Rightarrow>
          (case (if r = 0 then banner e cfg cout_initial else ([], cout_initial)) of
             (out, os) \<Rightarrow>
               (let p = \<lparr>rank = r, num_processes = n, conf = cfg,
                         next_rank = ring_next r n, prev_rank = ring_prev r n,
                         send_buf = None, recv_buf = None, cout = os\<rparr>
                in if use_gpu cfg then
                     (if USE_CUDA e then
                        (case checkCuda_seq
                                [(cuda_result e 0, ''cudaMalloc''), (cuda_result e 1, ''cudaMalloc''),
                                 (cuda_result e 2, ''cudaMemset''), (cuda_result e 3, ''cudaMemset'')] of
                           [] \<Rightarrow>
                             Ready (p\<lparr>send_buf := Some (replicate (unat (msg_size cfg)) 0),
                                      recv_buf := Some (replicate (unat (msg_size cfg)) 0)\<rparr>) out
                         | ev # evs \<Rightarrow> Aborted (out @ ev # evs))
                      else
                        Aborted (out
                          @ (if r = 0
                             then [Stderr ''GPU mode requested but binary not built with USE_CUDA=1.\<newline>'']
                             else [])
                          @ [MPI_Abort 1]))
                   else
                     Ready (p\<lparr>send_buf := malloc e 0 (msg_size cfg),
                              recv_buf := malloc e 1 (msg_size cfg)\<rparr>) out)))"

section \<open>One iteration of the measurement loop\<close>

text \<open>Line 128: \<^verbatim>\<open>static_cast< int >( msg_size )\<close> keeps the low 32 bits, read as two's
  complement.\<close>

definition size_t_to_int :: "size_t \<Rightarrow> c_int" where
  "size_t_to_int m = sint (ucast m :: 32 word)"

text \<open>Line 142: \<^verbatim>\<open>static_cast< double >( 2 * msg_size ) / dt / 1e9\<close>; the product is a
  \<^verbatim>\<open>size_t\<close>.\<close>

definition bandwidth :: "size_t \<Rightarrow> double \<Rightarrow> double" where
  "bandwidth m dt = real (unat (2 * m)) / dt / 1000000000"

fun combine :: "mpi_op \<Rightarrow> double \<Rightarrow> double \<Rightarrow> double" where
  "combine MPI_MIN a b = min a b"
| "combine MPI_MAX a b = max a b"
| "combine MPI_SUM a b = a + b"

text \<open>
  What \<^verbatim>\<open>MPI_Reduce( ..., 1, MPI_DOUBLE, op, 0, MPI_COMM_WORLD )\<close> leaves in the receive
  variable of rank 0, given the contributions of all ranks in rank order. A group has at
  least one member; \<open>None\<close> is the empty group.
\<close>

fun reduce_to_root :: "mpi_op \<Rightarrow> double list \<Rightarrow> double option" where
  "reduce_to_root opr [] = None"
| "reduce_to_root opr (x # xs) = Some (foldl (combine opr) x xs)"

record 'd statistics =
  global_min_bw :: 'd
  global_max_bw :: 'd
  global_avg_bw :: 'd
  global_min_dt :: 'd
  global_max_dt :: 'd
  global_avg_dt :: 'd

text \<open>Lines 149 to 166 on rank 0: three reductions of the bandwidths, one division of the
  sum by \<^verbatim>\<open>num_processes\<close>, and the same for the durations.\<close>

definition aggregate ::
  "c_int \<Rightarrow> double list \<Rightarrow> double list \<Rightarrow> double statistics option" where
  "aggregate n bws dts =
     (case (reduce_to_root MPI_MIN bws, reduce_to_root MPI_MAX bws, reduce_to_root MPI_SUM bws,
            reduce_to_root MPI_MIN dts, reduce_to_root MPI_MAX dts, reduce_to_root MPI_SUM dts) of
        (Some min_bw, Some max_bw, Some sum_bw, Some min_dt, Some max_dt, Some sum_dt) \<Rightarrow>
          Some \<lparr>global_min_bw = min_bw, global_max_bw = max_bw,
                global_avg_bw = sum_bw / real_of_int n,
                global_min_dt = min_dt, global_max_dt = max_dt,
                global_avg_dt = sum_dt / real_of_int n\<rparr>
      | _ \<Rightarrow> None)"

text \<open>Lines 170 to 175: the output statement of rank 0, for the six values \<open>st\<close> and the
  library's conversion \<open>conv\<close>; \<^verbatim>\<open>* 1e3\<close> is the multiplication of the numbers.\<close>

definition stats_line ::
  "(bool \<Rightarrow> nat \<Rightarrow> 'd \<Rightarrow> string) \<Rightarrow> ('d::{times,numeral}) statistics \<Rightarrow> inserter" where
  "stats_line conv st =
     statement
       [put_fixed, setprecision 3,
        put_string ''Bandwidth (send + recv): min = '', setw 10,
        put_double conv (global_min_bw st),
        put_string '' GB/s | max = '', setw 10, put_double conv (global_max_bw st),
        put_string '' GB/s | avg = '', setw 10, put_double conv (global_avg_bw st),
        put_string '' GB/s || Duration (send + recv): min = '', setw 10,
        put_double conv (global_min_dt st * 1000),
        put_string '' ms | max = '', setw 10, put_double conv (global_max_dt st * 1000),
        put_string '' ms | avg = '', setw 10, put_double conv (global_avg_dt st * 1000),
        put_string '' ms'', endl]"

text \<open>
  Lines 118 to 164, the same on every rank: the sleep when the interval is positive, the
  barrier, the timed exchange with the two neighbours, and this rank's six contributions
  to the reductions. \<open>dt\<close> is the difference of the two clock readings.
\<close>

definition exchange_and_reduce :: "proc \<Rightarrow> double \<Rightarrow> event list" where
  "exchange_and_reduce p dt =
     (let m = msg_size (conf p); bw = bandwidth m dt
      in (if interval_sec (conf p) > 0 then [Sleep_for (interval_sec (conf p))] else [])
         @ [MPI_Barrier,
            MPI_Sendrecv (size_t_to_int m) (next_rank p) (size_t_to_int m) (prev_rank p),
            MPI_Reduce MPI_MIN bw, MPI_Reduce MPI_MAX bw, MPI_Reduce MPI_SUM bw,
            MPI_Reduce MPI_MIN dt, MPI_Reduce MPI_MAX dt, MPI_Reduce MPI_SUM dt])"

text \<open>
  Lines 118 to 176, for the process \<open>p\<close>. \<open>dts\<close> holds the durations that the ranks of the
  group measure in this iteration, in rank order: \<open>dts ! r\<close> is the duration of rank \<open>r\<close>.
  All ranks run with the same command line, so rank \<open>r\<close> contributes the bandwidth
  \<open>bandwidth (msg_size (conf p)) (dts ! r)\<close>. Only rank 0 holds the reduced values and
  writes the line.
\<close>

definition main_iteration :: "env \<Rightarrow> proc \<Rightarrow> double list \<Rightarrow> event list \<times> proc" where
  "main_iteration e p dts =
     (let work = exchange_and_reduce p (dts ! nat (rank p))
      in if rank p = 0 then
           (case aggregate (num_processes p) (map (bandwidth (msg_size (conf p))) dts) dts of
              None \<Rightarrow> (work, p)
            | Some st \<Rightarrow>
                (case stats_line (num_put e) st (cout p) of
                   (line, os) \<Rightarrow> (work @ [Stdout line], p\<lparr>cout := os\<rparr>)))
         else (work, p))"

text \<open>\<^verbatim>\<open>while ( true )\<close>: the loop has no exit; the events of its first iterations, one
  per element of \<open>dtss\<close>, and the process after them.\<close>

fun main_loop :: "env \<Rightarrow> proc \<Rightarrow> double list list \<Rightarrow> event list \<times> proc" where
  "main_loop e p [] = ([], p)"
| "main_loop e p (dts # dtss) =
     (case main_iteration e p dts of (evs, p1) \<Rightarrow>
        (case main_loop e p1 dtss of (evs', p2) \<Rightarrow> (evs @ evs', p2)))"

text \<open>Everything the process of rank \<open>r\<close> does up to the end of the iterations in
  \<open>dtss\<close>. A process that aborts at startup, or that is ended by the exception of
  \<^verbatim>\<open>std::stod\<close>, does nothing further.\<close>

definition main_trace :: "env \<Rightarrow> string list \<Rightarrow> c_int \<Rightarrow> c_int \<Rightarrow> double list list \<Rightarrow> event list" where
  "main_trace e argv r n dtss =
     (case main_startup e argv r n of
        Bad_argument \<Rightarrow> [Terminate]
      | Aborted evs \<Rightarrow> evs
      | Ready p evs \<Rightarrow> evs @ fst (main_loop e p dtss))"

definition is_stats_line :: "event \<Rightarrow> bool" where
  "is_stats_line ev = (case ev of Stdout s \<Rightarrow> starts_with s ''Bandwidth'' | _ \<Rightarrow> False)"

section \<open>The statistics line, field by field\<close>



section \<open>Concrete machines and processes\<close>

text \<open>
  \<open>host_machine\<close>: a binary compiled without \<^verbatim>\<open>USE_CUDA\<close>, on a node whose heap holds
  bytes \<open>0xFF\<close>. \<open>cuda_machine d\<close>: a binary compiled with \<^verbatim>\<open>USE_CUDA\<close> on a node with
  \<open>d\<close> accelerators, where every CUDA call succeeds. On both, an undefined conversion to
  \<^verbatim>\<open>size_t\<close> gives 0, numbers are written by \<open>fixed_repr\<close> under \<^verbatim>\<open>std::fixed\<close> (and as a
  question mark otherwise), and \<^verbatim>\<open>std::stod\<close> reads the
  decimal numbers \<^verbatim>\<open>-1\<close>, \<^verbatim>\<open>4\<close>, \<^verbatim>\<open>64000000\<close> and \<^verbatim>\<open>9223372036854775808\<close> and throws on anything
  else. \<open>lone_process m\<close> is the only process of a group of one, with message size \<open>m\<close>,
  after a startup in which \<^verbatim>\<open>malloc\<close> returned null pointers.
\<close>

definition stod_sample :: "string \<Rightarrow> double option" where
  "stod_sample s =
     (if s = ''-1'' then Some (- 1)
      else if s = ''4'' then Some 4
      else if s = ''64000000'' then Some 64000000
      else if s = ''9223372036854775808'' then Some 9223372036854775808
      else None)"

definition host_machine :: env where
  "host_machine =
     \<lparr>USE_CUDA = False, stod = stod_sample, out_of_range = (\<lambda>d. 0),
      num_put = (\<lambda>fixed p x. if fixed then fixed_repr p x else ''?''),
      malloc_null = (\<lambda>k. False), heap_junk = (\<lambda>k i. 255),
      cuda_result = (\<lambda>k. cudaSuccess), device_count = 0\<rparr>"

definition cuda_machine :: "nat \<Rightarrow> env" where
  "cuda_machine d =
     \<lparr>USE_CUDA = True, stod = stod_sample, out_of_range = (\<lambda>d. 0),
      num_put = (\<lambda>fixed p x. if fixed then fixed_repr p x else ''?''),
      malloc_null = (\<lambda>k. False), heap_junk = (\<lambda>k i. 255),
      cuda_result = (\<lambda>k. cudaSuccess), device_count = d\<rparr>"

definition lone_process :: "size_t \<Rightarrow> proc" where
  "lone_process m =
     \<lparr>rank = 0, num_processes = 1,
      conf = \<lparr>msg_size = m, interval_sec = 1.0, use_gpu = False\<rparr>,
      next_rank = 0, prev_rank = 0, send_buf = None, recv_buf = None, cout = cout_initial\<rparr>"

section \<open>Integer conversions\<close>

lemma wrap_int_id: "fits_int x \<Longrightarrow> wrap_int x = x"
  unfolding fits_int_def INT_MIN_def INT_MAX_def wrap_int_def
  by (simp add: signed_take_bit_int_eq_self)

lemma smod_nonneg: "0 \<le> a \<Longrightarrow> 0 < b \<Longrightarrow> a smod b = a mod (b::int)"
  by (simp add: smod_int_alt_def sgn_if)

lemma uint_low: "uint (ucast (m::size_t) :: 32 word) = int (unat m) mod 2 ^ 32"
  by (simp add: unsigned_ucast_eq take_bit_eq_mod)

lemma sint_32_alt: "sint (w :: 32 word) = (if uint w < 2 ^ 31 then uint w else uint w - 2 ^ 32)"
proof -
  have b: "0 \<le> uint w" "uint w < 2 ^ 32"
    using uint_lt2p [of w] by simp_all
  have s: "sint w = (uint w + 2 ^ 31) mod 2 ^ 32 - 2 ^ 31"
    by (simp add: sint_uint signed_take_bit_eq_take_bit_shift take_bit_eq_mod)
  show ?thesis
  proof (cases "uint w < 2 ^ 31")
    case True
    then have "(uint w + 2 ^ 31) mod 2 ^ 32 = uint w + 2 ^ 31"
      using b by (simp add: mod_pos_pos_trivial)
    with True s show ?thesis by simp
  next
    case False
    then have "(uint w + 2 ^ 31) mod 2 ^ 32 = uint w + 2 ^ 31 - 2 ^ 32"
      using b by (simp add: mod_pos_geq mod_pos_pos_trivial)
    with False s show ?thesis by simp
  qed
qed

lemma size_t_to_int_alt:
  "size_t_to_int m =
     (if uint m mod 2 ^ 32 < 2 ^ 31 then uint m mod 2 ^ 32 else uint m mod 2 ^ 32 - 2 ^ 32)"
  by (simp add: size_t_to_int_def sint_32_alt uint_low)

lemma size_t_to_int_range: "size_t_to_int m \<le> 2 ^ 31 - 1 \<and> - (2 ^ 31) \<le> size_t_to_int m"
proof -
  define k where "k = uint m mod 2 ^ 32"
  have "0 \<le> k" and "k < 2 ^ 32"
    by (simp_all add: k_def)
  moreover have "size_t_to_int m = (if k < 2 ^ 31 then k else k - 2 ^ 32)"
    unfolding k_def by (rule size_t_to_int_alt)
  ultimately show ?thesis by (simp split: if_splits)
qed

lemma size_t_to_int_small:
  assumes "uint m \<le> 2 ^ 31 - 1"
  shows "size_t_to_int m = uint m"
proof -
  have "uint m mod 2 ^ 32 = uint m"
    using assms by (simp add: mod_pos_pos_trivial)
  with assms show ?thesis by (simp add: size_t_to_int_alt)
qed

lemma unat_double: "unat (m::size_t) < 2 ^ 63 \<Longrightarrow> unat (2 * m) = 2 * unat m"
  by (simp add: unat_word_ariths)

lemma unat_double_mod: "unat (2 * (m::size_t)) = (2 * unat m) mod 2 ^ 64"
  by (simp add: unat_word_ariths)

section \<open>Reductions\<close>

lemma foldl_add_sum_list: "foldl (+) (x::real) xs = x + sum_list xs"
  by (induction xs arbitrary: x) simp_all

lemma reduce_sum: "xs \<noteq> [] \<Longrightarrow> reduce_to_root MPI_SUM xs = Some (sum_list xs)"
proof (cases xs)
  case Nil
  assume "xs \<noteq> []"
  with Nil show ?thesis by simp
next
  case (Cons y ys)
  have "combine MPI_SUM = (+)" by (intro ext) simp
  with Cons show ?thesis by (simp add: foldl_add_sum_list)
qed

lemma reduce_Some: "xs \<noteq> [] \<Longrightarrow> \<exists>v. reduce_to_root opr xs = Some v"
  by (cases xs) simp_all


text \<open>The order in which the contributions are combined does not matter for the sum.\<close>

lemma reduce_sum_any_order:
  assumes "mset xs = mset ys" and "xs \<noteq> []"
  shows "reduce_to_root MPI_SUM ys = reduce_to_root MPI_SUM xs"
proof -
  from assms have y: "ys \<noteq> []" by auto
  have "sum_list ys = sum_list xs"
    using assms(1) by (metis sum_mset_sum_list)
  with reduce_sum [OF y] reduce_sum [OF assms(2)] show ?thesis by simp
qed

section \<open>Formatting\<close>

lemmas inserter_defs = put_string_def put_double_def put_size_t_def put_fixed_def
  setprecision_def setw_def endl_def

lemma pad_left_0: "pad_left 0 s = s"
  by (simp add: pad_left_def)

lemma show_nat_one_digit: "n < 10 \<Longrightarrow> show_nat n = [''0123456789'' ! n]"
  by (subst show_nat.simps) simp

lemma show_nat_step:
  "\<not> n < 10 \<Longrightarrow> show_nat n = show_nat (n div 10) @ [''0123456789'' ! (n mod 10)]"
  by (subst show_nat.simps) simp

lemma digit_mem: "d < 10 \<Longrightarrow> ''0123456789'' ! d \<in> set ''0123456789''"
  by (rule nth_mem) simp

lemma show_nat_digits: "set (show_nat n) \<subseteq> set ''0123456789''"
proof (induction n rule: show_nat.induct)
  case (1 n)
  show ?case
  proof (cases "n < 10")
    case True
    with digit_mem [of n] show ?thesis by (simp add: show_nat_one_digit)
  next
    case False
    have "n mod 10 < 10" by simp
    from digit_mem [OF this] "1.IH" [OF False] False show ?thesis
      by (simp add: show_nat_step)
  qed
qed

lemma show_nat_nonempty: "show_nat n \<noteq> []"
  by (cases "n < 10") (simp_all add: show_nat_one_digit show_nat_step)

lemma show_nat_length_3: "n < 1000 \<Longrightarrow> length (show_nat n) \<le> 3"
proof -
  assume n: "n < 1000"
  show ?thesis
  proof (cases "n < 10")
    case True
    then show ?thesis by (simp add: show_nat_one_digit)
  next
    case False
    show ?thesis
    proof (cases "n div 10 < 10")
      case True
      with False show ?thesis by (simp add: show_nat_step show_nat_one_digit)
    next
      case d: False
      from n have "n div 10 div 10 < 10" by simp
      with False d show ?thesis by (simp add: show_nat_step show_nat_one_digit)
    qed
  qed
qed

text \<open>What \<open>fixed_repr\<close> writes for a finite value at precision 3 is a sign, at least one
  digit, a point and exactly three digits.\<close>

lemma fixed_repr_3_shape:
  "\<exists>ip fp. fixed_repr 3 x = (if x < 0 then ''-'' else []) @ ip @ ''.'' @ fp
     \<and> ip \<noteq> [] \<and> set ip \<subseteq> set ''0123456789''
     \<and> length fp = 3 \<and> set fp \<subseteq> set ''0123456789''"
proof -
  define n where "n = nat (round_half_even (\<bar>x\<bar> * 10 ^ 3))"
  define ip where "ip = show_nat (n div 10 ^ 3)"
  define fr where "fr = show_nat (n mod 10 ^ 3)"
  define fp where "fp = zero_pad 3 fr"
  have l: "length fr \<le> 3"
    unfolding fr_def by (rule show_nat_length_3) simp
  then have len: "length fp = 3"
    by (simp add: fp_def zero_pad_def)
  have "set fr \<subseteq> set ''0123456789''"
    unfolding fr_def by (rule show_nat_digits)
  then have dig: "set fp \<subseteq> set ''0123456789''"
    by (auto simp add: fp_def zero_pad_def)
  have ipd: "set ip \<subseteq> set ''0123456789''"
    unfolding ip_def by (rule show_nat_digits)
  have ipn: "ip \<noteq> []"
    unfolding ip_def by (rule show_nat_nonempty)
  have "fixed_repr 3 x = (if x < 0 then ''-'' else []) @ ip @ ''.'' @ fp"
    by (simp add: fixed_repr_def Let_def n_def ip_def fr_def fp_def)
  with len dig ipd ipn show ?thesis by blast
qed



lemma banner_events:
  "fst (banner e cfg cout_initial) =
     [Stdout ''Ring comm benchmark.\<newline>'',
      Stdout (''Message size: '' @ show_nat (unat (msg_size cfg)) @ '' bytes (~''
              @ num_put e False 6 (real (unat (msg_size cfg)) / 1000000000) @ '' GB).\<newline>''),
      Stdout (''Interval:     '' @ num_put e False 6 (interval_sec cfg) @ '' seconds.\<newline>''),
      Stdout (''GPU mode:     '' @ (if use_gpu cfg then ''on'' else ''off'') @ ''\<newline>'')]"
  by (simp add: banner_def inserter_defs cout_initial_def pad_left_0)

lemma banner_state: "snd (banner e cfg cout_initial) = cout_initial"
  by (simp add: banner_def inserter_defs cout_initial_def)


section \<open>What an iteration keeps\<close>



text \<open>The events of the loop start with those of its first iteration.\<close>

lemma main_loop_first:
  "fst (main_loop e p (dts # dtss))
     = fst (main_iteration e p dts) @ fst (main_loop e (snd (main_iteration e p dts)) dtss)"
  by (simp add: case_prod_beta)

lemma exchange_and_reduce_sendrecv:
  "MPI_Sendrecv (size_t_to_int (msg_size (conf p))) (next_rank p)
      (size_t_to_int (msg_size (conf p))) (prev_rank p) \<in> set (exchange_and_reduce p dt)"
  by (simp add: exchange_and_reduce_def Let_def)

lemma exchange_and_reduce_no_stats: "ev \<in> set (exchange_and_reduce p dt) \<Longrightarrow> \<not> is_stats_line ev"
  by (auto simp add: exchange_and_reduce_def Let_def is_stats_line_def split: if_splits)

lemma main_iteration_work:
  "\<exists>out. fst (main_iteration e p dts) = exchange_and_reduce p (dts ! nat (rank p)) @ out"
  by (simp add: main_iteration_def Let_def case_prod_beta split: option.split)


section \<open>Startup, case by case\<close>

lemma startup_host:
  assumes "read_config (stod e) (out_of_range e) argv = Some cfg" and "\<not> use_gpu cfg"
  shows "main_startup e argv r n =
           Ready \<lparr>rank = r, num_processes = n, conf = cfg,
                  next_rank = ring_next r n, prev_rank = ring_prev r n,
                  send_buf = malloc e 0 (msg_size cfg), recv_buf = malloc e 1 (msg_size cfg),
                  cout = cout_initial\<rparr>
             (if r = 0 then fst (banner e cfg cout_initial) else [])"
  using assms by (simp add: main_startup_def case_prod_beta banner_state)


lemma startup_device:
  assumes "read_config (stod e) (out_of_range e) argv = Some cfg" and "use_gpu cfg" and "USE_CUDA e"
    and "cuda_result e 0 = cudaSuccess" and "cuda_result e 1 = cudaSuccess"
    and "cuda_result e 2 = cudaSuccess" and "cuda_result e 3 = cudaSuccess"
  shows "main_startup e argv r n =
           Ready \<lparr>rank = r, num_processes = n, conf = cfg,
                  next_rank = ring_next r n, prev_rank = ring_prev r n,
                  send_buf = Some (replicate (unat (msg_size cfg)) 0),
                  recv_buf = Some (replicate (unat (msg_size cfg)) 0),
                  cout = cout_initial\<rparr>
             (if r = 0 then fst (banner e cfg cout_initial) else [])"
  using assms by (simp add: main_startup_def case_prod_beta banner_state checkCuda_def)

lemma startup_Ready:
  assumes "main_startup e argv r n = Ready p evs"
  shows "rank p = r \<and> num_processes p = n \<and> read_config (stod e) (out_of_range e) argv = Some (conf p)
         \<and> next_rank p = ring_next r n \<and> prev_rank p = ring_prev r n
         \<and> cout p = cout_initial"
proof (cases "read_config (stod e) (out_of_range e) argv")
  case None
  with assms show ?thesis by (simp add: main_startup_def)
next
  case (Some cfg)
  show ?thesis
  proof (cases "use_gpu cfg")
    case False
    from assms Some show ?thesis unfolding startup_host [OF Some False] by auto
  next
    case True
    with assms Some show ?thesis
      by (auto simp add: main_startup_def case_prod_beta banner_state Let_def
          split: if_splits list.splits)
  qed
qed

section \<open>Properties of the ring topology\<close>

text \<open>
  C3, as stated, fails: for a group of \<open>2^30 + 1\<close> processes, the last rank's
  \<^verbatim>\<open>rank - 1 + num_processes\<close> is \<open>2^31\<close>, which is not an \<^verbatim>\<open>int\<close>; the wrapped sum is
  negative and so is the remainder, while \<open>(r - 1 + N) mod N\<close> is \<open>2^30 - 1\<close>.
\<close>

theorem ring_prev_overflow_counterexample:
  "(1::int) \<le> 1073741825 \<and> (0::int) \<le> 1073741824 \<and> (1073741824::int) < 1073741825
   \<and> \<not> fits_int (1073741824 - 1 + 1073741825)
   \<and> ring_prev 1073741824 1073741825 = - 1073741823
   \<and> ring_prev 1073741824 1073741825 \<noteq> (1073741824 - 1 + 1073741825) mod 1073741825"
  by (simp add: ring_prev_def wrap_int_def fits_int_def INT_MIN_def INT_MAX_def
      signed_take_bit_eq_take_bit_minus smod_int_alt_def)

text \<open>
  C3, amended: for every group size \<open>N \<ge> 1\<close> and every rank \<open>r\<close> in \<open>[0, N)\<close> for which
  \<open>r - 1 + N\<close> is an \<^verbatim>\<open>int\<close>, that is, at most \<open>2^31 - 1\<close> (as it is for every rank once
  \<open>N \<le> 2^30\<close>), the neighbours are \<open>next = (r + 1) mod N\<close> and \<open>prev = (r - 1 + N) mod N\<close>,
  both again ranks in \<open>[0, N)\<close>; for \<open>N = 1\<close> both are \<open>r\<close> itself.
\<close>

theorem ring_topology:
  assumes "1 \<le> N" and "fits_int N" and "0 \<le> r" and "r < N" and "fits_int (r - 1 + N)"
  shows "ring_next r N = (r + 1) mod N
       \<and> ring_prev r N = (r - 1 + N) mod N
       \<and> 0 \<le> ring_next r N \<and> ring_next r N < N
       \<and> 0 \<le> ring_prev r N \<and> ring_prev r N < N
       \<and> (N = 1 \<longrightarrow> ring_next r N = r \<and> ring_prev r N = r)"
proof -
  have f1: "fits_int (r + 1)" and f2: "fits_int (r - 1)"
    using assms(2,3,4) by (simp_all add: fits_int_def INT_MIN_def INT_MAX_def)
  have nx: "ring_next r N = (r + 1) mod N"
    using assms by (simp add: ring_next_def wrap_int_id [OF f1] smod_nonneg)
  have "wrap_int (wrap_int (r - 1) + N) = r - 1 + N"
    by (simp add: wrap_int_id [OF f2] wrap_int_id [OF assms(5)])
  then have pv: "ring_prev r N = (r - 1 + N) mod N"
    using assms by (simp add: ring_prev_def smod_nonneg)
  have one: "N = 1 \<longrightarrow> ring_next r N = r \<and> ring_prev r N = r"
    using assms nx pv by auto
  from nx pv one assms show ?thesis by simp
qed

lemma fits_int_small_group:
  assumes "1 \<le> N" and "N \<le> 2 ^ 30" and "0 \<le> r" and "r < N"
  shows "fits_int N \<and> fits_int (r - 1 + N)"
  using assms by (simp add: fits_int_def INT_MIN_def INT_MAX_def)

theorem ring_topology_witness:
  "ring_next 2 3 = 0 \<and> ring_prev 0 3 = 2 \<and> ring_next 0 1 = 0 \<and> ring_prev 0 1 = 0
   \<and> ring_prev 0 2147483647 = 2147483646"
proof -
  have a: "ring_next 2 3 = (2 + 1) mod 3"
    using ring_topology [of 3 2] by (simp add: fits_int_def INT_MIN_def INT_MAX_def)
  have b: "ring_prev 0 3 = (0 - 1 + 3) mod 3"
    using ring_topology [of 3 0] by (simp add: fits_int_def INT_MIN_def INT_MAX_def)
  have c: "ring_next 0 1 = 0 \<and> ring_prev 0 1 = 0"
    using ring_topology [of 1 0] by (simp add: fits_int_def INT_MIN_def INT_MAX_def)
  have d: "ring_prev 0 2147483647 = (0 - 1 + 2147483647) mod 2147483647"
    using ring_topology [of 2147483647 0] by (simp add: fits_int_def INT_MIN_def INT_MAX_def)
  from a b c d show ?thesis by simp
qed

section \<open>Aggregated mean\<close>

text \<open>
  C1. For every group size \<open>N \<ge> 1\<close> and one sample per rank, the mean that rank 0 holds
  after the reductions of an iteration is the sum of the \<open>N\<close> samples divided by \<open>N\<close>, for
  the bandwidths and for the durations: the sum reduction delivers the sum of all
  contributions to rank 0, and rank 0 divides it once by \<^verbatim>\<open>num_processes\<close>.
\<close>

theorem aggregate_mean:
  assumes "1 \<le> n" and "length bws = nat n" and "length dts = nat n"
  shows "\<exists>st. aggregate n bws dts = Some st
           \<and> reduce_to_root MPI_SUM bws = Some (sum_list bws)
           \<and> reduce_to_root MPI_SUM dts = Some (sum_list dts)
           \<and> global_avg_bw st = sum_list bws / real_of_int n
           \<and> global_avg_dt st = sum_list dts / real_of_int n"
proof -
  from assms have b: "bws \<noteq> []" and d: "dts \<noteq> []" by auto
  obtain b1 where b1: "reduce_to_root MPI_MIN bws = Some b1" using reduce_Some [OF b] by blast
  obtain b2 where b2: "reduce_to_root MPI_MAX bws = Some b2" using reduce_Some [OF b] by blast
  obtain d1 where d1: "reduce_to_root MPI_MIN dts = Some d1" using reduce_Some [OF d] by blast
  obtain d2 where d2: "reduce_to_root MPI_MAX dts = Some d2" using reduce_Some [OF d] by blast
  show ?thesis
    by (simp add: aggregate_def b1 b2 d1 d2 reduce_sum [OF b] reduce_sum [OF d])
qed

theorem aggregate_mean_witness:
  "\<exists>st. aggregate 3 [30, 31, 32] [0.004172, 0.004173, 0.004173] = Some st
     \<and> global_avg_bw st = 31 \<and> global_avg_dt st = 0.012518 / 3"
  using aggregate_mean [of 3 "[30, 31, 32]" "[0.004172, 0.004173, 0.004173]"] by simp

section \<open>Bandwidth\<close>

text \<open>
  C2, as stated, fails: \<^verbatim>\<open>2 * msg_size\<close> is computed in \<^verbatim>\<open>size_t\<close>. The argument
  \<^verbatim>\<open>--msg-size=9223372036854775808\<close> gives \<open>msg_size = 2^63\<close>, the product wraps to 0, and
  the bandwidth sample is 0 for every duration, not \<open>2 * msg_size / duration\<close>.
\<close>

theorem bandwidth_wrap_counterexample:
  "map_option msg_size
      (read_config stod_sample (\<lambda>d. 0) [''mpi_comm_bench'', ''--msg-size=9223372036854775808''])
     = Some 9223372036854775808
   \<and> bandwidth 9223372036854775808 1 = 0
   \<and> bandwidth 9223372036854775808 1
       \<noteq> 2 * real (unat (9223372036854775808 :: size_t)) / 1 / 1000000000"
  by (simp add: read_config_def get_flag_value_def starts_with_def stod_sample_def
      double_to_size_t_def bandwidth_def)

text \<open>
  C2, amended: for every message size below \<open>2^63\<close> bytes and every positive duration,
  the bandwidth sample of a rank is \<open>2 * msg_size / duration\<close> bytes per second, reported in
  GB/s (divided by \<open>10^9\<close>); it is the value that the rank contributes to the three
  bandwidth reductions. For 64,000,000 bytes and 0.120738 s it is 1.060 GB/s to three
  decimals.
\<close>

theorem bandwidth_law:
  assumes "unat (msg_size (conf p)) < 2 ^ 63" and "0 < dt"
  shows "bandwidth (msg_size (conf p)) dt
           = 2 * real (unat (msg_size (conf p))) / dt / 1000000000
       \<and> MPI_Reduce MPI_SUM (2 * real (unat (msg_size (conf p))) / dt / 1000000000)
           \<in> set (exchange_and_reduce p dt)"
proof -
  have "bandwidth (msg_size (conf p)) dt = 2 * real (unat (msg_size (conf p))) / dt / 1000000000"
    using assms by (simp add: bandwidth_def unat_double)
  moreover have "MPI_Reduce MPI_SUM (bandwidth (msg_size (conf p)) dt)
      \<in> set (exchange_and_reduce p dt)"
    by (simp add: exchange_and_reduce_def Let_def)
  ultimately show ?thesis by simp
qed

theorem bandwidth_law_witness:
  "bandwidth 64000000 0.120738 = 2 * 64000000 / 0.120738 / 1000000000
   \<and> \<bar>bandwidth 64000000 0.120738 - 1.060\<bar> < 0.0005
   \<and> fixed_repr 3 (bandwidth 64000000 0.120738) = ''1.060''"
proof -
  have e: "bandwidth 64000000 0.120738 = 2 * 64000000 / 0.120738 / 1000000000"
    using bandwidth_law [of "lone_process 64000000" "0.120738"]
    by (simp add: lone_process_def)
  have f: "fixed_repr 3 (bandwidth 64000000 0.120738) = ''1.060''"
    unfolding e
    by (simp add: fixed_repr_def round_half_even_def zero_pad_def Let_def show_nat.simps)
  have g: "\<bar>bandwidth 64000000 0.120738 - 1.060\<bar> < 0.0005"
    unfolding e by simp
  from e f g show ?thesis by blast
qed

section \<open>Transfer count\<close>

text \<open>
  C10. The count handed to \<^verbatim>\<open>MPI_Sendrecv\<close>, for sending and for receiving, is
  \<^verbatim>\<open>static_cast< int >( msg_size )\<close>. For every message size above \<open>2^31 - 1\<close> it differs from
  the message size: it is the message size modulo \<open>2^32\<close>, read as a signed 32-bit number.
  The bandwidth that the same iteration contributes is still computed from the 64-bit
  message size, as \<^verbatim>\<open>size_t( 2 * msg_size )\<close> over the duration.
\<close>

theorem transfer_count_truncated:
  assumes "2 ^ 31 - 1 < uint m" and "msg_size (conf p) = m"
  shows "size_t_to_int m \<noteq> uint m
       \<and> size_t_to_int m
           = (if uint m mod 2 ^ 32 < 2 ^ 31 then uint m mod 2 ^ 32 else uint m mod 2 ^ 32 - 2 ^ 32)
       \<and> MPI_Sendrecv (size_t_to_int m) (next_rank p) (size_t_to_int m) (prev_rank p)
           \<in> set (exchange_and_reduce p dt)
       \<and> MPI_Reduce MPI_SUM (real ((2 * unat m) mod 2 ^ 64) / dt / 1000000000)
           \<in> set (exchange_and_reduce p dt)"
proof -
  have a: "size_t_to_int m \<noteq> uint m"
    using assms(1) size_t_to_int_range [of m] by simp
  have b: "MPI_Sendrecv (size_t_to_int m) (next_rank p) (size_t_to_int m) (prev_rank p)
      \<in> set (exchange_and_reduce p dt)"
    using exchange_and_reduce_sendrecv [of p dt] assms(2) by simp
  have "bandwidth m dt = real ((2 * unat m) mod 2 ^ 64) / dt / 1000000000"
    by (simp only: bandwidth_def unat_double_mod)
  moreover have "MPI_Reduce MPI_SUM (bandwidth m dt) \<in> set (exchange_and_reduce p dt)"
    using assms(2) by (simp add: exchange_and_reduce_def Let_def)
  ultimately have c: "MPI_Reduce MPI_SUM (real ((2 * unat m) mod 2 ^ 64) / dt / 1000000000)
      \<in> set (exchange_and_reduce p dt)"
    by simp
  from a b c size_t_to_int_alt [of m] show ?thesis by blast
qed

theorem transfer_count_truncated_witness:
  "size_t_to_int 4294967296 = 0
   \<and> MPI_Sendrecv 0 0 0 0 \<in> set (exchange_and_reduce (lone_process 4294967296) 1)
   \<and> MPI_Reduce MPI_SUM (8589934592 / 1000000000)
        \<in> set (exchange_and_reduce (lone_process 4294967296) 1)"
proof -
  have h: "2 ^ 31 - 1 < uint (4294967296 :: size_t)" by simp
  have c: "msg_size (conf (lone_process 4294967296)) = 4294967296"
    by (simp add: lone_process_def)
  have n: "next_rank (lone_process 4294967296) = 0" "prev_rank (lone_process 4294967296) = 0"
    by (simp_all add: lone_process_def)
  from transfer_count_truncated [OF h c, of 1] show ?thesis
    by (clarsimp simp add: n)
qed

section \<open>Device mode without device support\<close>


lemma read_config_interval: "read_config sd oor argv = Some cfg \<Longrightarrow> interval_sec cfg = 1"
  by (auto simp add: read_config_def split: option.splits)





section \<open>The statistics line\<close>

lemma replicate_unfold: "replicate (numeral k) x = x # replicate (pred_numeral k) x"
  by (simp add: numeral_eq_Suc)






section \<open>Flags that main does not read\<close>

text \<open>
  C4. The README lists \<^verbatim>\<open>--interval=<interval-in-sec>\<close>, but \<^verbatim>\<open>main\<close> never looks the flag up:
  \<^verbatim>\<open>interval_sec\<close> is 1.0 on every command line. With \<^verbatim>\<open>--interval=0\<close> the configuration
  still has the interval 1.0, and each iteration (here on rank 1 of 2) begins with a sleep
  of one second before the barrier.
\<close>

theorem interval_flag_ignored:
  "read_config (stod e) (out_of_range e) [''mpi_comm_bench'', ''--interval=0'']
     = Some \<lparr>msg_size = 1048576, interval_sec = 1, use_gpu = False\<rparr>
   \<and> (\<exists>rest. main_trace e [''mpi_comm_bench'', ''--interval=0''] 1 2 (dts # dtss)
          = Sleep_for 1 # MPI_Barrier # rest)"
proof -
  have c: "read_config (stod e) (out_of_range e) [''mpi_comm_bench'', ''--interval=0'']
      = Some \<lparr>msg_size = 1048576, interval_sec = 1, use_gpu = False\<rparr>"
    by (simp add: read_config_def get_flag_value_def starts_with_def has_flag_def)
  have "\<exists>rest. main_trace e [''mpi_comm_bench'', ''--interval=0''] 1 2 (dts # dtss)
      = Sleep_for 1 # MPI_Barrier # rest"
    unfolding main_trace_def
    by (simp add: startup_host [OF c] main_iteration_def exchange_and_reduce_def
        case_prod_beta Let_def)
  with c show ?thesis by simp
qed

text \<open>
  C6. The README lists \<^verbatim>\<open>--mem-copy-local\<close>, but \<^verbatim>\<open>main\<close> never looks the flag up and has no
  local-copy path. With the flag and a group of one process, the process does exactly what
  it does without the flag: the iteration goes through \<^verbatim>\<open>MPI_Sendrecv\<close> with itself as
  destination and source.
\<close>

theorem mem_copy_local_flag_ignored:
  "has_flag [''mpi_comm_bench'', ''--mem-copy-local''] ''--mem-copy-local''
   \<and> main_startup e [''mpi_comm_bench'', ''--mem-copy-local''] 0 1
       = main_startup e [''mpi_comm_bench''] 0 1
   \<and> main_trace e [''mpi_comm_bench'', ''--mem-copy-local''] 0 1 dtss
       = main_trace e [''mpi_comm_bench''] 0 1 dtss
   \<and> MPI_Sendrecv 1048576 0 1048576 0
       \<in> set (main_trace e [''mpi_comm_bench'', ''--mem-copy-local''] 0 1 (dts # dtss))"
proof -
  have c: "read_config (stod e) (out_of_range e) [''mpi_comm_bench'', ''--mem-copy-local'']
      = Some \<lparr>msg_size = 1048576, interval_sec = 1, use_gpu = False\<rparr>"
    by (simp add: read_config_def get_flag_value_def starts_with_def has_flag_def)
  have c': "read_config (stod e) (out_of_range e) [''mpi_comm_bench'']
      = Some \<lparr>msg_size = 1048576, interval_sec = 1, use_gpu = False\<rparr>"
    by (simp add: read_config_def get_flag_value_def has_flag_def)
  have f: "has_flag [''mpi_comm_bench'', ''--mem-copy-local''] ''--mem-copy-local''"
    by (simp add: has_flag_def)
  have s: "main_startup e [''mpi_comm_bench'', ''--mem-copy-local''] 0 1
      = main_startup e [''mpi_comm_bench''] 0 1"
    by (simp add: startup_host [OF c] startup_host [OF c'])
  have t: "main_trace e [''mpi_comm_bench'', ''--mem-copy-local''] 0 1 dtss
      = main_trace e [''mpi_comm_bench''] 0 1 dtss" for dtss
    by (simp add: main_trace_def s)
  define p where "p = \<lparr>rank = 0, num_processes = 1,
      conf = \<lparr>msg_size = 1048576, interval_sec = 1, use_gpu = False\<rparr>,
      next_rank = ring_next 0 1, prev_rank = ring_prev 0 1,
      send_buf = malloc e 0 1048576, recv_buf = malloc e 1 1048576, cout = cout_initial\<rparr>"
  have nb: "ring_next 0 1 = 0" "ring_prev 0 1 = 0"
    by (simp_all add: ring_next_def ring_prev_def wrap_int_def
        signed_take_bit_eq_take_bit_minus smod_int_alt_def)
  have sr: "MPI_Sendrecv 1048576 0 1048576 0 \<in> set (exchange_and_reduce p (dts ! 0))"
    using exchange_and_reduce_sendrecv [of p "dts ! 0"]
    by (simp add: p_def nb size_t_to_int_small)
  obtain out where o: "fst (main_iteration e p dts) = exchange_and_reduce p (dts ! 0) @ out"
    using main_iteration_work [of e p dts] by (auto simp add: p_def)
  have "main_trace e [''mpi_comm_bench'', ''--mem-copy-local''] 0 1 (dts # dtss)
      = fst (banner e (conf p) cout_initial) @ fst (main_iteration e p dts)
        @ fst (main_loop e (snd (main_iteration e p dts)) dtss)"
    unfolding main_trace_def
    by (simp add: startup_host [OF c] main_loop_first p_def del: main_loop.simps)
  with sr o have m: "MPI_Sendrecv 1048576 0 1048576 0
      \<in> set (main_trace e [''mpi_comm_bench'', ''--mem-copy-local''] 0 1 (dts # dtss))"
    by simp
  from f s t m show ?thesis by blast
qed

section \<open>Buffers\<close>

text \<open>The device path: after a startup with \<^verbatim>\<open>--gpu\<close> that reaches the loop, both
  buffers hold \<^verbatim>\<open>msg_size\<close> bytes, all zero.\<close>

lemma device_buffers_zeroed:
  assumes "main_startup e argv r n = Ready p evs" and "use_gpu (conf p)"
  shows "send_buf p = Some (replicate (unat (msg_size (conf p))) 0)
       \<and> recv_buf p = Some (replicate (unat (msg_size (conf p))) 0)"
proof -
  obtain cfg where c: "read_config (stod e) (out_of_range e) argv = Some cfg" and k: "conf p = cfg"
    using startup_Ready [OF assms(1)] by simp
  from assms(2) k have g: "use_gpu cfg" by simp
  have "\<exists>os. p = \<lparr>rank = r, num_processes = n, conf = cfg,
                   next_rank = ring_next r n, prev_rank = ring_prev r n,
                   send_buf = Some (replicate (unat (msg_size cfg)) 0),
                   recv_buf = Some (replicate (unat (msg_size cfg)) 0), cout = os\<rparr>"
    using assms(1) c g
    by (auto simp add: main_startup_def case_prod_beta Let_def split: if_splits list.splits)
  then obtain os where "p = \<lparr>rank = r, num_processes = n, conf = cfg,
                   next_rank = ring_next r n, prev_rank = ring_prev r n,
                   send_buf = Some (replicate (unat (msg_size cfg)) 0),
                   recv_buf = Some (replicate (unat (msg_size cfg)) 0), cout = os\<rparr>"
    by blast
  then show ?thesis by simp
qed

text \<open>The host path: both buffers are what \<^verbatim>\<open>malloc\<close> returned, \<^verbatim>\<open>msg_size\<close> bytes each
  when the pointer is not null, with the content that the heap held.\<close>

lemma host_buffers_as_allocated:
  assumes "main_startup e argv r n = Ready p evs" and "\<not> use_gpu (conf p)"
  shows "send_buf p = malloc e 0 (msg_size (conf p))
       \<and> recv_buf p = malloc e 1 (msg_size (conf p))"
proof -
  obtain cfg where c: "read_config (stod e) (out_of_range e) argv = Some cfg" and k: "conf p = cfg"
    using startup_Ready [OF assms(1)] by simp
  from assms(2) k have g: "\<not> use_gpu cfg" by simp
  have "p = \<lparr>rank = r, num_processes = n, conf = cfg,
             next_rank = ring_next r n, prev_rank = ring_prev r n,
             send_buf = malloc e 0 (msg_size cfg), recv_buf = malloc e 1 (msg_size cfg),
             cout = cout_initial\<rparr>"
    using assms(1) unfolding startup_host [OF c g] by simp
  then show ?thesis by simp
qed

lemma malloc_length: "malloc e k m = Some bs \<Longrightarrow> length bs = unat m"
  by (auto simp add: malloc_def split: if_splits)

text \<open>
  C5. The device path zeroes both buffers with \<^verbatim>\<open>cudaMemset\<close>; the host path does not
  initialise them. On a host whose heap holds bytes \<open>0xFF\<close>, a run without \<^verbatim>\<open>--gpu\<close> and
  with \<^verbatim>\<open>--msg-size=4\<close> enters the loop with two buffers of four bytes \<open>0xFF\<close> each.
\<close>

theorem host_buffers_not_zeroed:
  "main_startup host_machine [''mpi_comm_bench'', ''--msg-size=4''] 1 2
     = Ready \<lparr>rank = 1, num_processes = 2,
              conf = \<lparr>msg_size = 4, interval_sec = 1, use_gpu = False\<rparr>,
              next_rank = 0, prev_rank = 0,
              send_buf = Some [255, 255, 255, 255], recv_buf = Some [255, 255, 255, 255],
              cout = cout_initial\<rparr> []"
proof -
  have c: "read_config (stod host_machine) (out_of_range host_machine) [''mpi_comm_bench'', ''--msg-size=4'']
      = Some \<lparr>msg_size = 4, interval_sec = 1, use_gpu = False\<rparr>"
    by (simp add: read_config_def get_flag_value_def starts_with_def has_flag_def
        host_machine_def stod_sample_def double_to_size_t_def)
  have nb: "ring_next 1 2 = 0" "ring_prev 1 2 = 0"
    by (simp_all add: ring_next_def ring_prev_def wrap_int_def
        signed_take_bit_eq_take_bit_minus smod_int_alt_def)
  have u: "[0..<4] = [0, 1, 2, 3]"
    by (simp add: upt_rec)
  have m: "malloc host_machine k 4 = Some [255, 255, 255, 255]" for k
    by (simp add: malloc_def host_machine_def u)
  show ?thesis
    by (simp add: startup_host [OF c] nb m)
qed

text \<open>
  C8. \<^verbatim>\<open>main\<close> never asks the CUDA runtime for the number of devices. With \<^verbatim>\<open>--gpu\<close>, two
  processes and one accelerator, rank 1 finishes its startup without any abort and runs
  its iterations; the startup is the same for every number of accelerators.
\<close>

theorem device_count_not_checked:
  "device_count (cuda_machine 1) = 1
   \<and> main_startup (cuda_machine d) [''mpi_comm_bench'', ''--gpu'', ''--msg-size=4''] r n
       = main_startup (cuda_machine 1) [''mpi_comm_bench'', ''--gpu'', ''--msg-size=4''] r n
   \<and> main_startup (cuda_machine 1) [''mpi_comm_bench'', ''--gpu'', ''--msg-size=4''] 1 2
       = Ready \<lparr>rank = 1, num_processes = 2,
                conf = \<lparr>msg_size = 4, interval_sec = 1, use_gpu = True\<rparr>,
                next_rank = 0, prev_rank = 0,
                send_buf = Some [0, 0, 0, 0], recv_buf = Some [0, 0, 0, 0],
                cout = cout_initial\<rparr> []
   \<and> main_trace (cuda_machine 1) [''mpi_comm_bench'', ''--gpu'', ''--msg-size=4''] 1 2 [[1, 1]]
       = [Sleep_for 1, MPI_Barrier, MPI_Sendrecv 4 0 4 0,
          MPI_Reduce MPI_MIN (8 / 1000000000), MPI_Reduce MPI_MAX (8 / 1000000000),
          MPI_Reduce MPI_SUM (8 / 1000000000),
          MPI_Reduce MPI_MIN 1, MPI_Reduce MPI_MAX 1, MPI_Reduce MPI_SUM 1]"
proof -
  have c: "read_config (stod (cuda_machine k)) (out_of_range (cuda_machine k)) [''mpi_comm_bench'', ''--gpu'', ''--msg-size=4'']
      = Some \<lparr>msg_size = 4, interval_sec = 1, use_gpu = True\<rparr>" for k
    by (simp add: read_config_def get_flag_value_def starts_with_def has_flag_def
        cuda_machine_def stod_sample_def double_to_size_t_def)
  have ok: "USE_CUDA (cuda_machine k)" "cuda_result (cuda_machine k) j = cudaSuccess" for k j
    by (simp_all add: cuda_machine_def)
  have nb: "ring_next 1 2 = 0" "ring_prev 1 2 = 0"
    by (simp_all add: ring_next_def ring_prev_def wrap_int_def
        signed_take_bit_eq_take_bit_minus smod_int_alt_def)
  have rp: "replicate 4 (0::byte) = [0, 0, 0, 0]"
    by (simp add: replicate_unfold)
  have st: "main_startup (cuda_machine k) [''mpi_comm_bench'', ''--gpu'', ''--msg-size=4''] r n
      = Ready \<lparr>rank = r, num_processes = n,
               conf = \<lparr>msg_size = 4, interval_sec = 1, use_gpu = True\<rparr>,
               next_rank = ring_next r n, prev_rank = ring_prev r n,
               send_buf = Some [0, 0, 0, 0], recv_buf = Some [0, 0, 0, 0],
               cout = cout_initial\<rparr>
          (if r = 0 then fst (banner (cuda_machine k)
              \<lparr>msg_size = 4, interval_sec = 1, use_gpu = True\<rparr> cout_initial) else [])"
    for k r n
    using startup_device [OF c _ ok(1) ok(2) ok(2) ok(2) ok(2), of k r n] by (simp add: rp)
  have a: "device_count (cuda_machine 1) = 1"
    by (simp add: cuda_machine_def)
  have gr: "num_put (cuda_machine k) = (\<lambda>fixed p x. if fixed then fixed_repr p x else ''?'')"
    for k
    by (simp add: cuda_machine_def)
  have b: "main_startup (cuda_machine d) [''mpi_comm_bench'', ''--gpu'', ''--msg-size=4''] r n
      = main_startup (cuda_machine 1) [''mpi_comm_bench'', ''--gpu'', ''--msg-size=4''] r n"
    by (simp add: st banner_events gr)
  have s1: "main_startup (cuda_machine 1) [''mpi_comm_bench'', ''--gpu'', ''--msg-size=4''] 1 2
      = Ready \<lparr>rank = 1, num_processes = 2,
                conf = \<lparr>msg_size = 4, interval_sec = 1, use_gpu = True\<rparr>,
                next_rank = 0, prev_rank = 0,
                send_buf = Some [0, 0, 0, 0], recv_buf = Some [0, 0, 0, 0],
                cout = cout_initial\<rparr> []"
    by (simp add: st nb)
  have t: "main_trace (cuda_machine 1) [''mpi_comm_bench'', ''--gpu'', ''--msg-size=4''] 1 2 [[1, 1]]
       = [Sleep_for 1, MPI_Barrier, MPI_Sendrecv 4 0 4 0,
          MPI_Reduce MPI_MIN (8 / 1000000000), MPI_Reduce MPI_MAX (8 / 1000000000),
          MPI_Reduce MPI_SUM (8 / 1000000000),
          MPI_Reduce MPI_MIN 1, MPI_Reduce MPI_MAX 1, MPI_Reduce MPI_SUM 1]"
    unfolding main_trace_def s1
    by (simp add: main_iteration_def exchange_and_reduce_def Let_def
        bandwidth_def size_t_to_int_small)
  from a b s1 t show ?thesis by blast
qed

end
